theory Spec2Isabelle
  imports Complex_Main
begin

text \<open>
  A model of \<open>comprehensive_osint_api.py\<close>: the query classifier, the dispatcher
  \<open>search_comprehensive\<close>, the retrying session \<open>EnhancedSession\<close>, the searches of the
  Gab, TikTok, utility and SULTAN services, and the report generator. Definitions keep the
  names of the Python functions; a name that starts with an underscore is written without
  it (\<open>_is_url\<close> is \<open>is_url\<close>), the \<open>search\<close> method of a class carries the class name
  (\<open>UtilityOSINT_search\<close>, \<open>SULTAN_search\<close>), \<open>make_request\<close> is the method of
  \<open>EnhancedSession\<close> and \<open>service_make_request\<close> is \<open>BaseOSINTService._make_request\<close>.
  After the record \<open>OSINTResult\<close> is declared, the parameters \<open>query\<close> and
  \<open>query_type\<close> of the Python functions are written \<open>q\<close> and \<open>qt\<close>.
\<close>

section \<open>Python string primitives\<close>

text \<open>
  A query is a Python \<open>str\<close>. It is modelled as a \<open>string\<close> whose elements are read as
  code points (one \<open>char\<close> per code point, so the model covers the code points below 256);
  \<open>length\<close> is then Python's \<open>len\<close>.
\<close>

definition startswith :: "string \<Rightarrow> string \<Rightarrow> bool" where
  \<comment> \<open>\<open>s.startswith(p)\<close>\<close>
  "startswith s p = (take (length p) s = p)"

definition endswith :: "string \<Rightarrow> string \<Rightarrow> bool" where
  \<comment> \<open>\<open>s.endswith(e)\<close>\<close>
  "endswith s e = (length e \<le> length s \<and> drop (length s - length e) s = e)"

fun contains :: "string \<Rightarrow> string \<Rightarrow> bool" where
  \<comment> \<open>\<open>p in s\<close>: \<open>p\<close> occurs in \<open>s\<close> as a contiguous substring\<close>
  "contains [] p = (p = [])"
| "contains (c # cs) p = (startswith (c # cs) p \<or> contains cs p)"

definition lower_char :: "char \<Rightarrow> char" where
  \<comment> \<open>\<open>str.lower\<close> on one code point below 256: A-Z and the upper-case Latin-1 letters
      (U+00C0 to U+00DE without the multiplication sign U+00D7) move up by 32\<close>
  "lower_char c =
     (let n = (of_char c :: nat)
      in if (65 \<le> n \<and> n \<le> 90) \<or> (192 \<le> n \<and> n \<le> 222 \<and> n \<noteq> 215)
         then char_of (n + 32) else c)"

definition lower :: "string \<Rightarrow> string" where
  "lower s = map lower_char s"

definition dollar_body :: "string \<Rightarrow> string" where
  \<comment> \<open>In Python's \<open>re\<close> (no flags) \<open>$\<close> matches at the end of the string and also just
      before a newline that is the last character. For a pattern \<open>^X$\<close> whose \<open>X\<close> cannot
      consume a newline, \<open>X\<close> must consume exactly this part of the string.\<close>
  "dollar_body s = (if s \<noteq> [] \<and> last s = CHR 0x0A then butlast s else s)"

definition username_char :: "char \<Rightarrow> bool" where
  \<comment> \<open>the character class \<open>[a-zA-Z0-9_.-]\<close>\<close>
  "username_char c =
     (let n = (of_char c :: nat)
      in (97 \<le> n \<and> n \<le> 122) \<or> (65 \<le> n \<and> n \<le> 90) \<or> (48 \<le> n \<and> n \<le> 57)
         \<or> c = CHR ''_'' \<or> c = CHR ''.'' \<or> c = CHR ''-'')"

definition digit_char :: "char \<Rightarrow> bool" where
  \<comment> \<open>\<open>\d\<close>: the decimal digits; below code point 256 these are 0-9 only\<close>
  "digit_char c = (let n = (of_char c :: nat) in 48 \<le> n \<and> n \<le> 57)"

definition match_username_re :: "string \<Rightarrow> bool" where
  \<comment> \<open>\<open>re.match(r'^[a-zA-Z0-9_.-]+$', s)\<close> is not None\<close>
  "match_username_re s = (let b = dollar_body s in b \<noteq> [] \<and> list_all username_char b)"

definition match_trainer_code_re :: "string \<Rightarrow> bool" where
  \<comment> \<open>\<open>re.match(r'^\d{12}$', s)\<close> is not None\<close>
  "match_trainer_code_re s = (let b = dollar_body s in length b = 12 \<and> list_all digit_char b)"

function py_replace :: "string \<Rightarrow> string \<Rightarrow> string \<Rightarrow> string" where
  "py_replace [] old new = (if old = [] then new else [])"
| "py_replace (c # cs) old new =
     (if old = [] then new @ c # py_replace cs old new
      else if startswith (c # cs) old then new @ py_replace (drop (length old) (c # cs)) old new
      else c # py_replace cs old new)"
  by pat_completeness auto
termination
  by (relation "measure (\<lambda>(s, old, new). length s)") auto

definition py_format :: "string \<Rightarrow> string \<Rightarrow> string" where
  \<comment> \<open>\<open>template.format(arg)\<close> for the templates of this program, which hold one \<open>{}\<close>
      and no other brace\<close>
  "py_format template arg = py_replace template ''{}'' arg"

function str_nat :: "nat \<Rightarrow> string" where
  "str_nat n = (if n < 10 then [char_of (48 + n)] else str_nat (n div 10) @ [char_of (48 + n mod 10)])"
  by pat_completeness auto
termination
  by (relation "measure id") auto

definition str_int :: "int \<Rightarrow> string" where
  "str_int i = (if i < 0 then CHR ''-'' # str_nat (nat (- i)) else str_nat (nat i))"

fun join :: "string \<Rightarrow> string list \<Rightarrow> string" where
  "join sep [] = []"
| "join sep [x] = x"
| "join sep (x # y # ys) = x @ sep @ join sep (y # ys)"

section \<open>Query classification (ComprehensiveOSINTEngine)\<close>

definition is_url :: "string \<Rightarrow> bool" where
  "is_url query =
     (startswith query ''http://'' \<or> startswith query ''https://''
      \<or> list_ex (\<lambda>domain. contains query domain) [''.com'', ''.org'', ''.net''])"

definition is_shortened_url :: "string \<Rightarrow> bool" where
  "is_shortened_url query =
     (let short_domains = [''bit.ly'', ''tinyurl.com'', ''t.co'', ''goo.gl'', ''ow.ly'']
      in list_ex (\<lambda>domain. contains query domain) short_domains)"

definition is_image_url :: "string \<Rightarrow> bool" where
  "is_image_url query =
     (let image_extensions = [''.jpg'', ''.jpeg'', ''.png'', ''.gif'', ''.webp'', ''.bmp'']
      in list_ex (\<lambda>ext. endswith (lower query) ext) image_extensions)"

definition looks_like_username :: "string \<Rightarrow> bool" where
  "looks_like_username query =
     (length query \<ge> 2 \<and> length query \<le> 30 \<and> match_username_re query \<and> \<not> is_url query)"

definition rule_search_types :: "string \<Rightarrow> string list" where
  \<comment> \<open>the value of the variable \<open>search_types\<close> of \<open>_determine_search_types\<close> after the
      \<open>if\<close>/\<open>elif\<close> chain, before the default is applied\<close>
  "rule_search_types query =
     (if is_url query then
        (if is_shortened_url query then [''utility_url_expansion''] else [])
        @ (if is_image_url query then [''image_analysis''] else [])
      else if looks_like_username query then [''social_username'', ''bulk_username'']
      else if contains query ''@'' \<and> contains query ''.'' then [''social_linkedin_email_lookup'']
      else if match_trainer_code_re query then [''utility_pokemon_go_trainer_code'']
      else [])"

definition determine_search_types :: "string \<Rightarrow> string list" where
  "determine_search_types query =
     (let search_types = rule_search_types query
      in if search_types = [] then [''social_username'', ''bulk_username''] else search_types)"

section \<open>Result records (OSINTResult)\<close>

text \<open>
  The values of a result's \<open>data\<close> dictionary are Python objects of the kinds the program
  stores there. A dictionary is an association list in insertion order, as Python iterates
  it. Floats are modelled by real numbers with exact arithmetic; rounding is not modelled.
\<close>

datatype pyval =
    PNone
  | PBool bool
  | PInt int
  | PFloat real
  | PStr string
  | PList "pyval list"
  | PDict "(string \<times> pyval) list"

type_synonym pydict = "(string \<times> pyval) list"

record OSINTResult =
  service :: string
  query :: string
  query_type :: string
  success :: bool
  data :: pydict
  error :: "string option"
  timestamp :: string
  response_time :: real
  status_code :: "int option"

definition py_sum :: "'a::monoid_add list \<Rightarrow> 'a" where
  "py_sum xs = foldl (+) 0 xs"

fun dict_set :: "string \<Rightarrow> pyval \<Rightarrow> pydict \<Rightarrow> pydict" where
  \<comment> \<open>\<open>d[k] = v\<close>: a new key goes to the end, an old key keeps its place\<close>
  "dict_set k v [] = [(k, v)]"
| "dict_set k v ((k', v') # rest) =
     (if k' = k then (k, v) # rest else (k', v') # dict_set k v rest)"

fun pyval_get :: "pyval \<Rightarrow> string \<Rightarrow> pyval option" where
  \<comment> \<open>\<open>r.get(k)\<close> for a value \<open>r\<close> that is a dict\<close>
  "pyval_get (PDict d) k = map_of d k"
| "pyval_get _ k = None"

section \<open>Report aggregation\<close>

text \<open>
  The report is the dictionary that \<open>generate_comprehensive_report\<close> builds, one record
  per nested dictionary. Three library calls are parameters, collected in \<open>libs\<close>:
  \<open>str(d)\<close> of a dictionary, \<open>json.dumps(report, indent=2, default=str)\<close>, and
  \<open>pd.DataFrame(rows).to_csv(index=False)\<close> of a list of row dictionaries.
\<close>

record summary =
  total_searches :: int
  successful_searches :: int
  failed_searches :: int
  total_response_time :: real
  summary_timestamp :: string

record service_entry =
  entry_query :: string
  entry_query_type :: string
  entry_success :: bool
  entry_data :: pydict
  entry_error :: "string option"
  entry_response_time :: real

record url_finding =
  found_url :: string
  found_source :: string
  found_context :: string

record profile_finding =
  profile_service :: string
  profile_query :: string
  profile_data :: pydict

record key_finding =
  finding_service :: string
  finding_query :: string
  finding_type :: string
  finding_text :: string
  finding_details :: pydict

record report =
  search_summary :: summary
  results_by_service :: "(string \<times> service_entry list) list"
  key_findings :: "key_finding list"
  urls_discovered :: "url_finding list"
  profiles_found :: "profile_finding list"

record libs =
  dict_str :: "pydict \<Rightarrow> string"
  json_dumps :: "report \<Rightarrow> string"
  rows_to_csv :: "pydict list \<Rightarrow> string"

datatype report_output = AsDict report | AsStr string

fun append_for_service ::
  "string \<Rightarrow> 'a \<Rightarrow> (string \<times> 'a list) list \<Rightarrow> (string \<times> 'a list) list" where
  "append_for_service s e [] = [(s, [e])]"
| "append_for_service s e ((k, es) # rest) =
     (if k = s then (k, es @ [e]) # rest else (k, es) # append_for_service s e rest)"

definition url_findings_of :: "OSINTResult \<Rightarrow> url_finding list" where
  "url_findings_of result =
     concat (map (\<lambda>(key, val).
        (case val of
           PStr s \<Rightarrow> (if is_url s
                      then [\<lparr>found_url = s, found_source = service result, found_context = key\<rparr>]
                      else [])
         | _ \<Rightarrow> [])) (data result))"

definition extract_key_findings :: "libs \<Rightarrow> OSINTResult \<Rightarrow> report \<Rightarrow> report" where
  "extract_key_findings L result rep =
     (let d = data result;
          rep1 = rep\<lparr>urls_discovered := urls_discovered rep @ url_findings_of result\<rparr>;
          rep2 = (if service result \<in> set [''SocialMediaOSINT'', ''SULTAN''] \<and> success result
                     \<and> (contains (dict_str L d) ''profile_exists''
                          \<or> contains (dict_str L d) ''profiles_found'')
                  then rep1\<lparr>profiles_found := profiles_found rep1 @
                         [\<lparr>profile_service = service result, profile_query = query result,
                           profile_data = d\<rparr>]\<rparr>
                  else rep1)
      in if success result
         then rep2\<lparr>key_findings := key_findings rep2 @
                [\<lparr>finding_service = service result, finding_query = query result,
                  finding_type = query_type result,
                  finding_text = ''Successfully found data on '' @ service result,
                  finding_details = d\<rparr>]\<rparr>
         else rep2)"

definition add_result :: "libs \<Rightarrow> report \<Rightarrow> OSINTResult \<Rightarrow> report" where
  "add_result L rep result =
     (let rep1 = rep\<lparr>results_by_service :=
                   append_for_service (service result)
                     \<lparr>entry_query = query result, entry_query_type = query_type result,
                      entry_success = success result, entry_data = data result,
                      entry_error = error result, entry_response_time = response_time result\<rparr>
                     (results_by_service rep)\<rparr>
      in if success result \<and> data result \<noteq> [] then extract_key_findings L result rep1 else rep1)"

definition csv_row :: "OSINTResult \<Rightarrow> pydict" where
  "csv_row result =
     [(''Service'', PStr (service result)),
      (''Query'', PStr (query result)),
      (''Query_Type'', PStr (query_type result)),
      (''Success'', PBool (success result)),
      (''Response_Time'', PFloat (response_time result)),
      (''Status_Code'', (case status_code result of None \<Rightarrow> PNone | Some c \<Rightarrow> PInt c)),
      (''Error'', PStr (case error result of None \<Rightarrow> [] | Some e \<Rightarrow> e)),
      (''Data_Keys'', PStr (if data result \<noteq> [] then join '', '' (map fst (data result)) else [])),
      (''Timestamp'', PStr (timestamp result))]"

definition generate_csv_report :: "libs \<Rightarrow> OSINTResult list \<Rightarrow> string" where
  "generate_csv_report L results =
     (let data_rows = foldl (\<lambda>rows result. rows @ [csv_row result]) [] results
      in if data_rows \<noteq> [] then rows_to_csv L data_rows else ''No results to export'')"

definition assemble_report :: "libs \<Rightarrow> string \<Rightarrow> OSINTResult list \<Rightarrow> report" where
  \<comment> \<open>the dictionary \<open>report\<close> of \<open>generate_comprehensive_report\<close> when its loop over the
      results has ended; \<open>now\<close> is what \<open>datetime.now().isoformat()\<close> returned\<close>
  "assemble_report L now results =
     (let report0 =
            \<lparr>search_summary =
               \<lparr>total_searches = int (length results),
                successful_searches = py_sum (map (\<lambda>r. 1) (filter success results)),
                failed_searches = py_sum (map (\<lambda>r. 1) (filter (\<lambda>r. \<not> success r) results)),
                total_response_time = py_sum (map response_time results),
                summary_timestamp = now\<rparr>,
             results_by_service = [],
             key_findings = [],
             urls_discovered = [],
             profiles_found = []\<rparr>
      in foldl (add_result L) report0 results)"

definition generate_comprehensive_report ::
  "libs \<Rightarrow> string \<Rightarrow> OSINTResult list \<Rightarrow> string \<Rightarrow> report_output" where
  "generate_comprehensive_report L now results output_format =
     (let rep = assemble_report L now results
      in if output_format = ''json'' then AsStr (json_dumps L rep)
         else if output_format = ''csv'' then AsStr (generate_csv_report L results)
         else AsDict rep)"

section \<open>Effects: exceptions, the network, the clock and the log\<close>

text \<open>
  A computation takes the state of the world and returns either the exception it raises or
  its result, together with the new world. The world records what the program did: the
  requests it sent (oldest first), how often it slept, read the clock and changed the
  session headers, each service's \<open>last_request\<close> and Selenium driver, and the log.

  What the outside answers is given by an environment \<open>env\<close>: \<open>http E n method url\<close> is
  what \<open>session.request(method, url, timeout=30)\<close> does when \<open>n\<close> requests were sent before
  (it raises or returns a response); \<open>browser\<close> is the same for \<open>driver.get(url)\<close> and
  gives the page source and the current URL; \<open>chrome_start\<close> tells whether starting the
  Chrome driver raises; \<open>clock\<close> and \<open>clock_iso\<close> give the n-th reading of the clock
  (\<open>time.time()\<close>, \<open>datetime.now().isoformat()\<close>); \<open>quote\<close> is \<open>urllib.parse.quote\<close>; the
  last three stand for the HTML extraction done with BeautifulSoup
  (\<open>_extract_gab_data\<close>, \<open>_extract_tiktok_data\<close>, \<open>_parse_expansion_response\<close>), which
  may raise.
\<close>

datatype exn = Exception string

fun str_exn :: "exn \<Rightarrow> string" where
  "str_exn (Exception msg) = msg"

record response =
  resp_status_code :: int
  resp_text :: string
  resp_url :: string

datatype request = HttpRequest string string | BrowserGet string

datatype log_record =
    RequestInfo string string string int real
  | RequestError string string exn
  | DriverWarning exn
  | SearchTypeError string exn

record world =
  requests :: "request list"
  sleeps :: nat
  clock_reads :: nat
  header_updates :: nat
  last_request :: "string \<Rightarrow> real"
  driver_starts :: nat
  driver :: "string \<Rightarrow> bool"
  log :: "log_record list"

record env =
  http :: "nat \<Rightarrow> string \<Rightarrow> string \<Rightarrow> exn + response"
  browser :: "nat \<Rightarrow> string \<Rightarrow> exn + string \<times> string"
  chrome_start :: "nat \<Rightarrow> exn option"
  clock :: "nat \<Rightarrow> real"
  clock_iso :: "nat \<Rightarrow> string"
  quote :: "string \<Rightarrow> string"
  extract_gab_data :: "string \<Rightarrow> string \<Rightarrow> exn + pydict"
  extract_tiktok_data :: "string \<Rightarrow> string \<Rightarrow> exn + pydict"
  parse_expansion_response :: "string \<Rightarrow> response \<Rightarrow> string \<Rightarrow> exn + string option"

type_synonym 'a io = "world \<Rightarrow> (exn + 'a) \<times> world"

definition io_return :: "'a \<Rightarrow> 'a io" where
  "io_return x w = (Inr x, w)"

definition io_raise :: "exn \<Rightarrow> 'a io" where
  "io_raise e w = (Inl e, w)"

definition io_bind :: "'a io \<Rightarrow> ('a \<Rightarrow> 'b io) \<Rightarrow> 'b io" where
  "io_bind m f w = (case m w of (Inl e, w') \<Rightarrow> (Inl e, w') | (Inr x, w') \<Rightarrow> f x w')"

definition io_try :: "'a io \<Rightarrow> (exn \<Rightarrow> 'a io) \<Rightarrow> 'a io" where
  "io_try m handler w = (case m w of (Inl e, w') \<Rightarrow> handler e w' | (Inr x, w') \<Rightarrow> (Inr x, w'))"

definition io_lift :: "exn + 'a \<Rightarrow> 'a io" where
  "io_lift r w = (r, w)"

definition time_time :: "env \<Rightarrow> real io" where
  "time_time E w = (Inr (clock E (clock_reads w)), w\<lparr>clock_reads := Suc (clock_reads w)\<rparr>)"

definition time_sleep :: "unit io" where
  "time_sleep w = (Inr (), w\<lparr>sleeps := Suc (sleeps w)\<rparr>)"

definition logger :: "log_record \<Rightarrow> unit io" where
  "logger entry w = (Inr (), w\<lparr>log := log w @ [entry]\<rparr>)"

primrec io_foldl :: "('b \<Rightarrow> 'a \<Rightarrow> 'b io) \<Rightarrow> 'b \<Rightarrow> 'a list \<Rightarrow> 'b io" where
  \<comment> \<open>a \<open>for\<close> loop without \<open>break\<close> or \<open>return\<close>, over the loop's variables \<open>acc\<close>\<close>
  "io_foldl body acc [] = io_return acc"
| "io_foldl body acc (x # xs) = io_bind (body acc x) (\<lambda>acc'. io_foldl body acc' xs)"

subsection \<open>EnhancedSession\<close>

text \<open>
  \<open>make_request\<close> loops over \<open>range(max_retries)\<close>. An attempt that returns a response
  ends the call; an attempt that raises is retried after a sleep, except on the last
  index, where the exception is raised again. The \<open>raise\<close> after the loop is the value for
  the empty range.
\<close>

definition update_headers :: "unit io" where
  "update_headers w = (Inr (), w\<lparr>header_updates := Suc (header_updates w)\<rparr>)"

definition session_request :: "env \<Rightarrow> string \<Rightarrow> string \<Rightarrow> response io" where
  "session_request E method url w =
     (http E (length (requests w)) method url,
      w\<lparr>requests := requests w @ [HttpRequest method url]\<rparr>)"

definition max_retries :: nat where
  "max_retries = 3"

definition request_attempt :: "env \<Rightarrow> string \<Rightarrow> string \<Rightarrow> nat \<Rightarrow> response io" where
  "request_attempt E url method attempt =
     io_bind (if attempt > 0 then update_headers else io_return ())
       (\<lambda>_. session_request E method url)"

fun make_request_loop :: "env \<Rightarrow> string \<Rightarrow> string \<Rightarrow> nat list \<Rightarrow> response io" where
  "make_request_loop E url method [] = io_raise (Exception ''Max retries exceeded'')"
| "make_request_loop E url method (attempt # rest) =
     io_try (request_attempt E url method attempt)
       (\<lambda>e. if attempt = max_retries - 1 then io_raise e
            else io_bind time_sleep (\<lambda>_. make_request_loop E url method rest))"

definition make_request :: "env \<Rightarrow> string \<Rightarrow> string \<Rightarrow> response io" where
  "make_request E url method = make_request_loop E url method [0..<max_retries]"

subsection \<open>OSINTResult construction\<close>

definition new_OSINTResult ::
  "env \<Rightarrow> string \<Rightarrow> string \<Rightarrow> string \<Rightarrow> bool \<Rightarrow> pydict \<Rightarrow> string option \<Rightarrow> real
     \<Rightarrow> int option \<Rightarrow> OSINTResult io" where
  \<comment> \<open>\<open>OSINTResult(service=..., ...)\<close> without a timestamp: \<open>__post_init__\<close> reads the clock\<close>
  "new_OSINTResult E svc q qt ok d err rt sc w =
     (Inr \<lparr>service = svc, query = q, query_type = qt, success = ok, data = d, error = err,
           timestamp = clock_iso E (clock_reads w), response_time = rt, status_code = sc\<rparr>,
      w\<lparr>clock_reads := Suc (clock_reads w)\<rparr>)"

subsection \<open>BaseOSINTService\<close>

record service_self =
  name :: string
  rate_limit_interval :: real

definition rate_limit :: "env \<Rightarrow> service_self \<Rightarrow> unit io" where
  "rate_limit E self =
     io_bind (time_time E) (\<lambda>now.
     io_bind (\<lambda>w. (Inr (now - last_request w (name self)), w)) (\<lambda>elapsed.
     io_bind (if elapsed < rate_limit_interval self then time_sleep else io_return ()) (\<lambda>_.
     io_bind (time_time E) (\<lambda>t w.
       (Inr (), w\<lparr>last_request := (last_request w)(name self := t)\<rparr>)))))"

definition get_selenium_driver :: "env \<Rightarrow> service_self \<Rightarrow> bool io" where
  \<comment> \<open>returns whether \<open>self.driver\<close> is set after the call\<close>
  "get_selenium_driver E self w =
     (if driver w (name self) then (Inr True, w)
      else (case chrome_start E (driver_starts w) of
              None \<Rightarrow>
                (Inr True, w\<lparr>driver_starts := Suc (driver_starts w),
                             driver := (driver w)(name self := True)\<rparr>)
            | Some e \<Rightarrow>
                (Inr False, w\<lparr>driver_starts := Suc (driver_starts w),
                              log := log w @ [DriverWarning e]\<rparr>)))"

definition driver_get :: "env \<Rightarrow> string \<Rightarrow> response io" where
  \<comment> \<open>\<open>self.driver.get(url)\<close> and the \<open>SeleniumResponse\<close> built from the driver\<close>
  "driver_get E url w =
     ((case browser E (length (requests w)) url of
         Inl e \<Rightarrow> Inl e
       | Inr (page_source, current_url) \<Rightarrow>
           Inr \<lparr>resp_status_code = 200, resp_text = page_source, resp_url = current_url\<rparr>),
      w\<lparr>requests := requests w @ [BrowserGet url]\<rparr>)"

definition service_make_request ::
  "env \<Rightarrow> service_self \<Rightarrow> string \<Rightarrow> string \<Rightarrow> bool \<Rightarrow> response io" where
  "service_make_request E self url method use_selenium =
     io_bind (rate_limit E self) (\<lambda>_.
     io_bind (time_time E) (\<lambda>start_time.
     io_try
       (io_bind
          (if use_selenium
           then io_bind (get_selenium_driver E self) (\<lambda>have_driver.
                  if have_driver then driver_get E url else make_request E url method)
           else make_request E url method) (\<lambda>response.
        io_bind (time_time E) (\<lambda>t.
        io_bind (logger (RequestInfo (name self) method url (resp_status_code response)
                           (t - start_time))) (\<lambda>_.
        io_return response))))
       (\<lambda>e. io_bind (logger (RequestError (name self) url e)) (\<lambda>_. io_raise e))))"

subsection \<open>SocialMediaOSINT: Gab and TikTok\<close>

definition social_media :: service_self where
  "social_media = \<lparr>name = ''SocialMediaOSINT'', rate_limit_interval = 1\<rparr>"

definition gab_fetch :: "env \<Rightarrow> string \<Rightarrow> string \<Rightarrow> real \<Rightarrow> string \<Rightarrow> OSINTResult io" where
  \<comment> \<open>\<open>search_gab\<close> from \<open>response = self._make_request(url)\<close> to the end of the \<open>try\<close>\<close>
  "gab_fetch E q qt start_time url =
     io_bind (service_make_request E social_media url ''GET'' False) (\<lambda>response.
     io_bind (time_time E) (\<lambda>t.
       (let response_time = t - start_time
        in if resp_status_code response = 200
           then io_bind (io_lift (extract_gab_data E (resp_text response) qt))
                  (\<lambda>profile_data.
                     new_OSINTResult E ''Gab'' q qt True profile_data None
                       response_time (Some (resp_status_code response)))
           else new_OSINTResult E ''Gab'' q qt False []
                  (Some (''Profile not found (HTTP '' @ str_int (resp_status_code response) @ '')''))
                  response_time (Some (resp_status_code response)))))"

definition search_gab :: "env \<Rightarrow> string \<Rightarrow> string \<Rightarrow> OSINTResult io" where
  "search_gab E q qt =
     io_bind (time_time E) (\<lambda>start_time.
       io_try
         (if qt = ''username''
          then gab_fetch E q qt start_time (''https://gab.com/'' @ q)
          else if qt = ''hashtag''
          then gab_fetch E q qt start_time (''https://gab.com/tags/'' @ q)
          else new_OSINTResult E ''Gab'' q qt False []
                 (Some ''Unsupported query type'') 0 None)
         (\<lambda>e. io_bind (time_time E) (\<lambda>t.
            new_OSINTResult E ''Gab'' q qt False [] (Some (str_exn e))
              (t - start_time) None)))"

definition tiktok_fetch :: "env \<Rightarrow> string \<Rightarrow> string \<Rightarrow> real \<Rightarrow> string \<Rightarrow> OSINTResult io" where
  "tiktok_fetch E q qt start_time url =
     io_bind (service_make_request E social_media url ''GET'' True) (\<lambda>response.
     io_bind (time_time E) (\<lambda>t.
       (let response_time = t - start_time
        in if resp_status_code response = 200
           then io_bind (io_lift (extract_tiktok_data E (resp_text response) qt))
                  (\<lambda>profile_data.
                     new_OSINTResult E ''TikTok'' q qt True profile_data None
                       response_time (Some (resp_status_code response)))
           else new_OSINTResult E ''TikTok'' q qt False []
                  (Some ''Could not access TikTok profile'') response_time None)))"

definition search_tiktok :: "env \<Rightarrow> string \<Rightarrow> string \<Rightarrow> OSINTResult io" where
  "search_tiktok E q qt =
     io_bind (time_time E) (\<lambda>start_time.
       io_try
         (if qt = ''username''
          then tiktok_fetch E q qt start_time (''https://www.tiktok.com/@'' @ q)
          else if qt = ''hashtag''
          then tiktok_fetch E q qt start_time (''https://www.tiktok.com/tag/'' @ q)
          else new_OSINTResult E ''TikTok'' q qt False []
                 (Some ''Unsupported query type'') 0 None)
         (\<lambda>e. io_bind (time_time E) (\<lambda>t.
            new_OSINTResult E ''TikTok'' q qt False [] (Some (str_exn e))
              (t - start_time) None)))"

subsection \<open>UtilityOSINT\<close>

definition utilities :: service_self where
  "utilities = \<lparr>name = ''UtilityOSINT'', rate_limit_interval = 1\<rparr>"

definition url_expanders :: "(string \<times> string) list" where
  "url_expanders =
     [(''getlinkinfo'', ''http://www.getlinkinfo.com/info?link={}''),
      (''checkshorturl'', ''https://checkshorturl.com/expand.php?u={}''),
      (''expandurl'', ''https://www.expandurl.net/expand?url={}'')]"

definition pokemon_go_services :: pydict where
  "pokemon_go_services =
     [(''pogotrainer'', PStr ''https://pogotrainer.club/''),
      (''gamepress'', PStr ''https://gamepress.gg/pokemongo/trainer-codes-list''),
      (''pokelytics'', PStr ''https://pokelytics.com/''),
      (''openstreetmap'', PStr ''https://www.openstreetmap.org/'')]"

definition expand_with :: "env \<Rightarrow> string \<Rightarrow> pydict \<Rightarrow> string \<times> string \<Rightarrow> pydict io" where
  \<comment> \<open>one pass of the loop of \<open>expand_url\<close>; \<open>results\<close> is the loop's dictionary\<close>
  "expand_with E url results expander =
     (case expander of (service_name, url_template) \<Rightarrow>
        io_try
          (let expand_url = py_format url_template (quote E url)
           in io_bind (service_make_request E utilities expand_url ''GET'' False) (\<lambda>response.
                if resp_status_code response = 200
                then io_bind (io_lift (parse_expansion_response E service_name response url))
                       (\<lambda>expanded.
                          io_return (dict_set service_name
                            (PDict [(''status'', PStr ''success''),
                                    (''expanded_url'',
                                       (case expanded of None \<Rightarrow> PNone | Some u \<Rightarrow> PStr u)),
                                    (''service_url'', PStr expand_url)]) results))
                else io_return (dict_set service_name
                       (PDict [(''status'', PStr ''failed''),
                               (''status_code'', PInt (resp_status_code response)),
                               (''service_url'', PStr expand_url)]) results)))
          (\<lambda>e. io_return (dict_set service_name
                  (PDict [(''status'', PStr ''error''), (''error'', PStr (str_exn e))]) results)))"

definition expand_url :: "env \<Rightarrow> string \<Rightarrow> OSINTResult io" where
  "expand_url E url =
     io_bind (time_time E) (\<lambda>start_time.
     io_bind (io_foldl (expand_with E url) [] url_expanders) (\<lambda>results.
     io_bind (time_time E) (\<lambda>t.
       new_OSINTResult E (name utilities) url ''url_expansion''
         (list_ex (\<lambda>(k, r). pyval_get r ''status'' = Some (PStr ''success'')) results)
         [(''expansion_results'', PDict results)] None (t - start_time) None)))"

definition pokemon_go_search :: "env \<Rightarrow> string \<Rightarrow> string \<Rightarrow> OSINTResult io" where
  "pokemon_go_search E q qt =
     io_bind (time_time E) (\<lambda>start_time.
       (let search_urls =
          (if qt = ''trainer_code'' then
             [(''google'', PStr (''https://www.google.com/search?q='' @ [CHR 0x22] @ q @ [CHR 0x22])),
              (''reddit'', PStr (''https://www.reddit.com/r/PokemonGoFriends/search/?q='' @ q
                                 @ ''&restrict_sr=1'')),
              (''twitter'', PStr (''https://twitter.com/search?q='' @ q))]
           else if qt = ''username'' then
             [(''friendhuntr'',
                 PStr (''https://api.friendhuntr.com/distribute/payload-search?username='' @ q)),
              (''silph'', PStr (''https://sil.ph/'' @ q)),
              (''pokebattler'', PStr (''https://www.pokebattler.com/profiles?search='' @ q
                                      @ ''&page=0#searchResult'')),
              (''trainerdex'', PStr (''https://www.trainerdex.co.uk/u/'' @ q))]
           else [])
        in io_bind (time_time E) (\<lambda>t.
             new_OSINTResult E (name utilities) q (''pokemon_go_'' @ qt) True
               [(''search_urls'', PDict search_urls),
                (''pokemon_go_resources'', PDict pokemon_go_services)]
               None (t - start_time) None)))"

definition UtilityOSINT_search :: "env \<Rightarrow> string \<Rightarrow> string \<Rightarrow> OSINTResult io" where
  "UtilityOSINT_search E q qt =
     (if qt = ''url_expansion'' then expand_url E q
      else if startswith qt ''pokemon_go'' then
        (let pogo_type = py_replace qt ''pokemon_go_'' [] in pokemon_go_search E q pogo_type)
      else new_OSINTResult E (name utilities) q qt False [] (Some ''Unsupported query type'')
             0 None)"

subsection \<open>SULTANFramework\<close>

definition sultan :: service_self where
  "sultan = \<lparr>name = ''SULTAN'', rate_limit_interval = 1 / 2\<rparr>"

record platform =
  platform_name :: string
  url_template :: string
  error_indicators :: "string list"
  success_indicators :: "string list"

definition load_default_platforms :: "platform list" where
  "load_default_platforms =
     [\<lparr>platform_name = ''GitHub'', url_template = ''https://github.com/{}'',
       error_indicators = [''Not Found'', ''404''], success_indicators = [''contributions'']\<rparr>,
      \<lparr>platform_name = ''Twitter'', url_template = ''https://twitter.com/{}'',
       error_indicators = [''does not exist'', ''suspended''],
       success_indicators = [''tweets'', ''followers'']\<rparr>,
      \<lparr>platform_name = ''Instagram'', url_template = ''https://instagram.com/{}'',
       error_indicators = [''not found'', ''error''],
       success_indicators = [''posts'', ''followers'']\<rparr>,
      \<lparr>platform_name = ''Reddit'', url_template = ''https://reddit.com/user/{}'',
       error_indicators = [''not found'', ''suspended''],
       success_indicators = [''karma'', ''trophy'']\<rparr>,
      \<lparr>platform_name = ''YouTube'', url_template = ''https://youtube.com/@'' @ ''{}'',
       error_indicators = [''not found'', ''404''],
       success_indicators = [''subscribers'', ''videos'']\<rparr>]"

definition analyze_platform_response :: "response \<Rightarrow> platform \<Rightarrow> bool" where
  "analyze_platform_response response p =
     (if resp_status_code response = 404 then False
      else if resp_status_code response = 403 then True
      else if resp_status_code response \<noteq> 200 then False
      else (let text_lower = lower (resp_text response)
            in if list_ex (\<lambda>error_indicator. contains text_lower (lower error_indicator))
                    (error_indicators p) then False
               else if platform_name p \<in> set [''Twitter'', ''Instagram'', ''YouTube''] then
                 (if list_ex (\<lambda>err. contains text_lower err)
                       [''not found'', ''does not exist'', ''suspended'', ''account suspended'']
                  then False else True)
               else if list_ex (\<lambda>success_indicator. contains text_lower (lower success_indicator))
                         (success_indicators p) then True
               else True))"

definition check_platform ::
  "env \<Rightarrow> string \<Rightarrow> pydict \<times> int \<Rightarrow> platform \<Rightarrow> (pydict \<times> int) io" where
  \<comment> \<open>one pass of the loop of \<open>bulk_username_check\<close> over \<open>results\<close> and \<open>found_count\<close>\<close>
  "check_platform E username acc p =
     (case acc of (results, found_count) \<Rightarrow>
        io_try
          (let url = py_format (url_template p) username
           in io_bind (service_make_request E sultan url ''GET'' False) (\<lambda>response.
                (let exists = analyze_platform_response response p;
                     results' = dict_set (platform_name p)
                       (PDict [(''url'', PStr url),
                               (''status_code'', PInt (resp_status_code response)),
                               (''exists'', PBool exists),
                               (''accessible'', PBool (resp_status_code response = 200))]) results
                 in io_return (results', if exists then found_count + 1 else found_count))))
          (\<lambda>e. io_return
                 (dict_set (platform_name p)
                    (PDict [(''url'', PStr (py_format (url_template p) username)),
                            (''error'', PStr (str_exn e)),
                            (''exists'', PBool False),
                            (''accessible'', PBool False)]) results,
                  found_count)))"

definition bulk_username_check :: "env \<Rightarrow> string \<Rightarrow> OSINTResult io" where
  "bulk_username_check E username =
     io_bind (time_time E) (\<lambda>start_time.
     io_bind (io_foldl (check_platform E username) ([], 0) load_default_platforms) (\<lambda>acc.
       (case acc of (results, found_count) \<Rightarrow>
          io_bind (time_time E) (\<lambda>t.
            new_OSINTResult E (name sultan) username ''bulk_username_check'' (found_count > 0)
              [(''platforms_checked'', PInt (int (length load_default_platforms))),
               (''profiles_found'', PInt found_count),
               (''results'', PDict results),
               (''summary'', PStr (''Found '' @ str_int found_count @ '' profiles for username ''
                                  @ [CHR 0x27] @ username @ [CHR 0x27]))]
              None (t - start_time) None))))"

definition SULTAN_search :: "env \<Rightarrow> string \<Rightarrow> string \<Rightarrow> OSINTResult io" where
  "SULTAN_search E q qt =
     (if qt = ''bulk_username_check'' then bulk_username_check E q
      else new_OSINTResult E (name sultan) q qt False []
             (Some ''Unsupported query type for SULTAN'') 0 None)"

section \<open>Dispatch (ComprehensiveOSINTEngine.search_comprehensive)\<close>

text \<open>
  The engine holds four services and calls only their \<open>search\<close> methods. They are taken as
  parameters here (\<open>services\<close>), each free to return or to raise; \<open>image_analysis.search\<close>
  and \<open>sultan.search\<close> are called with their default query type. The social-media service
  returns a list of results, and the dispatcher also accepts a single result from it.
\<close>

datatype search_return = Single OSINTResult | Several "OSINTResult list"

record services =
  social_media_search :: "string \<Rightarrow> string \<Rightarrow> search_return io"
  image_analysis_search :: "string \<Rightarrow> OSINTResult io"
  utilities_search :: "string \<Rightarrow> string \<Rightarrow> OSINTResult io"
  sultan_search :: "string \<Rightarrow> OSINTResult io"

definition search_one_type ::
  "services \<Rightarrow> string \<Rightarrow> OSINTResult list \<Rightarrow> string \<Rightarrow> OSINTResult list io" where
  \<comment> \<open>the body of the \<open>try\<close> in the loop of \<open>search_comprehensive\<close>: the list \<open>results\<close>
      after it, when no call raises\<close>
  "search_one_type S q results search_type =
     (if startswith search_type ''social_'' then
        io_bind (social_media_search S q search_type) (\<lambda>platform_results.
          (case platform_results of
             Several rs \<Rightarrow> io_return (results @ rs)
           | Single r \<Rightarrow> io_return (results @ [r])))
      else if search_type = ''image_analysis'' then
        io_bind (image_analysis_search S q) (\<lambda>r. io_return (results @ [r]))
      else if startswith search_type ''utility_'' then
        (let util_type = py_replace search_type ''utility_'' []
         in io_bind (utilities_search S q util_type) (\<lambda>r. io_return (results @ [r])))
      else if search_type = ''bulk_username'' then
        io_bind (sultan_search S q) (\<lambda>r. io_return (results @ [r]))
      else io_return results)"

definition search_loop_body ::
  "services \<Rightarrow> string \<Rightarrow> OSINTResult list \<Rightarrow> string \<Rightarrow> OSINTResult list io" where
  "search_loop_body S q results search_type =
     io_try (search_one_type S q results search_type)
       (\<lambda>e. io_bind (logger (SearchTypeError search_type e)) (\<lambda>_. io_return results))"

definition search_comprehensive ::
  "services \<Rightarrow> string \<Rightarrow> string list option \<Rightarrow> OSINTResult list io" where
  "search_comprehensive S q search_types =
     (let search_types' =
            (case search_types of None \<Rightarrow> determine_search_types q | Some ts \<Rightarrow> ts)
      in io_foldl (search_loop_body S q) [] search_types')"

section \<open>Reading the outcome of a search\<close>

text \<open>
  \<open>rejects_with msg search w\<close>: run from \<open>w\<close>, the search returns a result that is not
  successful, carries exactly the error \<open>msg\<close> and no data, and no request was sent.

  \<open>invocation_outcomes\<close> lists, for each search type of a batch in order, what the
  invocation for that type did on its own: the exception it raised, or the entries it
  contributed. The world is passed from one invocation to the next as the dispatcher
  leaves it.
\<close>

definition rejects_with :: "string \<Rightarrow> OSINTResult io \<Rightarrow> world \<Rightarrow> bool" where
  "rejects_with msg search w =
     (case search w of
        (Inr r, w') \<Rightarrow>
          \<not> success r \<and> error r = Some msg \<and> data r = [] \<and> requests w' = requests w
      | (Inl e, w') \<Rightarrow> False)"



section \<open>Example environments\<close>

text \<open>
  Concrete worlds and environments for evaluating the definitions: a network where the
  first two requests time out and later ones succeed, a network that is down, and an
  engine whose image service raises.
\<close>

definition world0 :: world where
  "world0 = \<lparr>requests = [], sleeps = 0, clock_reads = 0, header_updates = 0,
             last_request = (\<lambda>service_name. 0), driver_starts = 0,
             driver = (\<lambda>service_name. False), log = []\<rparr>"

definition example_env :: env where
  "example_env =
     \<lparr>http = (\<lambda>n method url.
        if n < 2 then Inl (Exception ''connection timed out'')
        else Inr \<lparr>resp_status_code = 200, resp_text = ''<title>ok</title>'', resp_url = url\<rparr>),
      browser = (\<lambda>n url. Inr (''<html></html>'', url)),
      chrome_start = (\<lambda>n. None),
      clock = (\<lambda>n. real n),
      clock_iso = (\<lambda>n. ''2024-01-01T00:00:00''),
      quote = (\<lambda>s. s),
      extract_gab_data = (\<lambda>html qt. Inr [(''profile_exists'', PBool True)]),
      extract_tiktok_data = (\<lambda>html qt. Inr [(''profile_exists'', PBool True)]),
      parse_expansion_response = (\<lambda>service_name response url. Inr None)\<rparr>"

definition offline_env :: env where
  "offline_env = example_env\<lparr>http := (\<lambda>n method url. Inl (Exception ''connection refused''))\<rparr>"


subsection \<open>Stand-ins for the libraries and example results\<close>

fun example_cell :: "pyval \<Rightarrow> string" where
  "example_cell (PStr s) = s"
| "example_cell (PBool b) = (if b then ''True'' else ''False'')"
| "example_cell PNone = []"
| "example_cell (PInt i) = ''<int>''"
| "example_cell (PFloat x) = ''<float>''"
| "example_cell (PList xs) = ''<list>''"
| "example_cell (PDict d) = ''<dict>''"

definition example_rows_to_csv :: "pydict list \<Rightarrow> string" where
  \<comment> \<open>a header line with the keys of the first row, then one line per row\<close>
  "example_rows_to_csv rows =
     concat (map (\<lambda>line. line @ [CHR 0x0A])
       ((case rows of [] \<Rightarrow> [] | r # _ \<Rightarrow> [join '','' (map fst r)])
        @ map (\<lambda>r. join '','' (map (\<lambda>(k, v). example_cell v) r)) rows))"

definition example_libs :: libs where
  "example_libs =
     \<lparr>dict_str = (\<lambda>d. join '', '' (map fst d)),
      json_dumps = (\<lambda>rep. ''{}''),
      rows_to_csv = example_rows_to_csv\<rparr>"

definition example_result :: OSINTResult where
  "example_result =
     \<lparr>service = ''Gab'', query = ''testuser'', query_type = ''username'', success = True,
      data = [(''profile_exists'', PBool True), (''page_title'', PStr ''testuser'')],
      error = None, timestamp = ''2024-01-01T00:00:00'', response_time = 3 / 2,
      status_code = Some 200\<rparr>"

definition example_failure :: OSINTResult where
  "example_failure =
     \<lparr>service = ''SULTAN'', query = ''testuser'', query_type = ''foo'', success = False,
      data = [], error = Some ''Unsupported query type for SULTAN'',
      timestamp = ''2024-01-01T00:00:01'', response_time = 0, status_code = None\<rparr>"

section \<open>Properties of the query classifier\<close>

lemma startswith_hd_mem: "startswith s (c # p) \<Longrightarrow> c \<in> set s"
  by (cases s) (auto simp: startswith_def)

lemma contains_hd_mem: "contains s (c # p) \<Longrightarrow> c \<in> set s"
  by (induction s) (auto dest: startswith_hd_mem)

lemma username_chars_no_newline:
  assumes "list_all username_char s"
  shows "dollar_body s = s"
proof -
  have "\<not> username_char (CHR 0x0A)"
    by (simp add: username_char_def)
  with assms have "s \<noteq> [] \<Longrightarrow> last s \<noteq> CHR 0x0A"
    by (metis last_in_set list_all_iff)
  then show ?thesis
    by (auto simp: dollar_body_def)
qed

lemma digit_is_username_char: "digit_char c \<Longrightarrow> username_char c"
  by (simp add: digit_char_def username_char_def Let_def)

lemma digits_not_url:
  assumes "list_all digit_char q"
  shows "\<not> is_url q"
proof -
  have nd: "\<not> digit_char CHR ''h''" "\<not> digit_char CHR ''.''"
    by (simp_all add: digit_char_def)
  from assms nd have "CHR ''h'' \<notin> set q" "CHR ''.'' \<notin> set q"
    by (auto simp: list_all_iff)
  then show ?thesis
    by (auto simp: is_url_def dest: startswith_hd_mem contains_hd_mem)
qed

lemma username_shape_looks_like_username:
  assumes "2 \<le> length q" and "length q \<le> 30" and "list_all username_char q"
    and "\<not> is_url q"
  shows "looks_like_username q"
proof -
  from assms(3) have "dollar_body q = q"
    by (rule username_chars_no_newline)
  moreover from assms(1) have "q \<noteq> []"
    by auto
  ultimately have "match_username_re q"
    using assms(3) by (simp add: match_username_re_def)
  with assms show ?thesis
    by (simp add: looks_like_username_def)
qed

lemma username_branch_tags:
  assumes "looks_like_username q"
  shows "determine_search_types q = [''social_username'', ''bulk_username'']"
proof -
  from assms have "\<not> is_url q"
    by (simp add: looks_like_username_def)
  with assms show ?thesis
    by (simp add: determine_search_types_def rule_search_types_def)
qed

text \<open>
  The branch for trainer codes comes after the branch for usernames in the
  \<open>if\<close>/\<open>elif\<close> chain. Among the strings of this model (code points below 256, where
  the decimal digits are 0-9), every string the trainer-code pattern matches (twelve
  digits, with or without one final newline) is also matched by the username pattern, has
  at most 13 characters and is not a URL, so the username branch takes it: for these
  strings the trainer-code branch is never reached.
\<close>

lemma trainer_code_match_looks_like_username:
  assumes "match_trainer_code_re q"
  shows "looks_like_username q"
proof -
  let ?b = "dollar_body q"
  from assms have len: "length ?b = 12" and dig: "list_all digit_char ?b"
    by (simp_all add: match_trainer_code_re_def Let_def)
  from dig have ub: "list_all username_char ?b"
    by (auto simp: list_all_iff dest: digit_is_username_char)
  from len have ne: "?b \<noteq> []"
    by auto
  from ub ne have m: "match_username_re q"
    by (simp add: match_username_re_def)
  have lq: "length q = 12 \<or> length q = 13"
    using len by (auto simp: dollar_body_def split: if_splits)
  have "\<not> is_url q"
  proof (cases "dollar_body q = q")
    case True
    with dig show ?thesis
      by (simp add: digits_not_url)
  next
    case False
    then have q: "q = ?b @ [CHR 0x0A]" and "q \<noteq> []"
      by (auto simp: dollar_body_def split: if_splits) (metis append_butlast_last_id)
    have nd: "\<not> digit_char CHR ''h''" "\<not> digit_char CHR ''.''"
      by (simp_all add: digit_char_def)
    with dig have "CHR ''h'' \<notin> set ?b" "CHR ''.'' \<notin> set ?b"
      by (auto simp: list_all_iff)
    then have "CHR ''h'' \<notin> set q" "CHR ''.'' \<notin> set q"
      by (subst q, simp)+
    then show ?thesis
      by (auto simp: is_url_def dest: startswith_hd_mem contains_hd_mem)
  qed
  with m lq show ?thesis
    by (auto simp: looks_like_username_def)
qed

lemma trainer_code_tag_never_produced:
  "determine_search_types q \<noteq> [''utility_pokemon_go_trainer_code'']"
proof (cases "match_trainer_code_re q")
  case True
  then have "looks_like_username q"
    by (rule trainer_code_match_looks_like_username)
  then show ?thesis
    by (simp add: username_branch_tags)
next
  case False
  then show ?thesis
    by (simp add: determine_search_types_def rule_search_types_def)
qed

text \<open>
  C2. The claim: a string of exactly twelve ASCII digits is classified as a trainer code
  only. On the code the string \<open>123456789012\<close> matches the trainer-code pattern, but the
  classifier returns the two username tags for it and not the trainer-code tag.
\<close>

theorem twelve_digit_code_classified_as_username:
  "match_trainer_code_re ''123456789012''
   \<and> determine_search_types ''123456789012'' = [''social_username'', ''bulk_username'']
   \<and> determine_search_types ''123456789012'' \<noteq> [''utility_pokemon_go_trainer_code'']"
  by code_simp

text \<open>
  C3, as the claim states it: a query that is a URL, names a short-link host and ends in an
  image extension gets the URL-expansion tag only. The query \<open>https://bit.ly/a.jpg\<close>
  satisfies all three tests and its tag list is not the URL-expansion tag alone.
\<close>

theorem short_image_url_counterexample:
  "is_url ''https://bit.ly/a.jpg'' \<and> is_shortened_url ''https://bit.ly/a.jpg''
   \<and> is_image_url ''https://bit.ly/a.jpg''
   \<and> determine_search_types ''https://bit.ly/a.jpg'' \<noteq> [''utility_url_expansion'']"
  by code_simp

text \<open>
  C3, amended: a query that is a URL, names a short-link host and ends in an image
  extension gets both tags, the URL-expansion tag first and the image-analysis tag second
  (the two tests inside the URL branch are independent \<open>if\<close>s).
\<close>

theorem short_image_url_both_tags:
  assumes "is_url q" and "is_shortened_url q" and "is_image_url q"
  shows "determine_search_types q = [''utility_url_expansion'', ''image_analysis'']"
  using assms by (simp add: determine_search_types_def rule_search_types_def)

theorem short_image_url_both_tags_witness:
  "is_url ''https://bit.ly/a.jpg'' \<and> is_shortened_url ''https://bit.ly/a.jpg''
   \<and> is_image_url ''https://bit.ly/a.jpg''
   \<and> determine_search_types ''https://bit.ly/a.jpg''
       = [''utility_url_expansion'', ''image_analysis'']"
proof -
  have h1: "is_url ''https://bit.ly/a.jpg''"
    by code_simp
  have h2: "is_shortened_url ''https://bit.ly/a.jpg''"
    by code_simp
  have h3: "is_image_url ''https://bit.ly/a.jpg''"
    by code_simp
  from short_image_url_both_tags [OF h1 h2 h3] h1 h2 h3 show ?thesis
    by blast
qed

text \<open>
  C4. A query of 2 to 30 characters, all from \<open>[A-Za-z0-9_.-]\<close>, that is not a URL is
  classified with exactly the social-username and the bulk-username tag.
\<close>

theorem username_shape_tags:
  assumes "2 \<le> length q" and "length q \<le> 30" and "list_all username_char q"
    and "\<not> is_url q"
  shows "determine_search_types q = [''social_username'', ''bulk_username'']"
  using assms by (intro username_branch_tags username_shape_looks_like_username)

theorem username_shape_tags_witness:
  "2 \<le> length ''testuser'' \<and> length ''testuser'' \<le> 30
   \<and> list_all username_char ''testuser'' \<and> \<not> is_url ''testuser''
   \<and> determine_search_types ''testuser'' = [''social_username'', ''bulk_username'']"
proof -
  have h1: "2 \<le> length ''testuser''" and h2: "length ''testuser'' \<le> 30"
    by simp_all
  have h3: "list_all username_char ''testuser''"
    by code_simp
  have h4: "\<not> is_url ''testuser''"
    by code_simp
  from username_shape_tags [OF h1 h2 h3 h4] h1 h2 h3 h4 show ?thesis
    by blast
qed

text \<open>
  C10. The classifier never returns an empty tag list: whenever the rules leave the list
  empty it returns the social-username and bulk-username tags, and a URL that neither
  names a short-link host nor ends in an image extension is such a case.
\<close>

theorem classifier_nonempty_with_default:
  "determine_search_types q \<noteq> []
   \<and> (rule_search_types q = [] \<longrightarrow>
        determine_search_types q = [''social_username'', ''bulk_username''])
   \<and> (is_url q \<and> \<not> is_shortened_url q \<and> \<not> is_image_url q \<longrightarrow>
        rule_search_types q = []
        \<and> determine_search_types q = [''social_username'', ''bulk_username''])"
  by (simp add: determine_search_types_def rule_search_types_def)

theorem classifier_nonempty_with_default_witness:
  "determine_search_types ''https://example.com/page'' \<noteq> []
   \<and> is_url ''https://example.com/page'' \<and> \<not> is_shortened_url ''https://example.com/page''
   \<and> \<not> is_image_url ''https://example.com/page''
   \<and> rule_search_types ''https://example.com/page'' = []
   \<and> determine_search_types ''https://example.com/page''
       = [''social_username'', ''bulk_username'']"
proof -
  have h1: "is_url ''https://example.com/page''"
    by code_simp
  have h2: "\<not> is_shortened_url ''https://example.com/page''"
    by code_simp
  have h3: "\<not> is_image_url ''https://example.com/page''"
    by code_simp
  from classifier_nonempty_with_default [of "''https://example.com/page''"] h1 h2 h3
  show ?thesis
    by blast
qed

section \<open>Properties of the report aggregator\<close>










lemma data_rows_foldl: "foldl (\<lambda>rows result. rows @ [f result]) acc rs = acc @ map f rs"
  by (induction rs arbitrary: acc) simp_all

lemma generate_csv_report_rows:
  "generate_csv_report L results =
     (if results \<noteq> [] then rows_to_csv L (map csv_row results) else ''No results to export'')"
  by (simp add: generate_csv_report_def data_rows_foldl)

text \<open>
  C9, as the claim states it: for every list of results the CSV form is the table with the
  fixed columns and one row per result. For the empty list the program does not serialise
  a table: it returns the sentence \<open>No results to export\<close>, which is not the table of no
  rows and names no column.
\<close>

theorem csv_report_empty_counterexample:
  "generate_comprehensive_report example_libs ''2024-01-01T00:00:00'' [] ''csv''
     = AsStr ''No results to export''
   \<and> generate_comprehensive_report example_libs ''2024-01-01T00:00:00'' [] ''csv''
     \<noteq> AsStr (rows_to_csv example_libs (map csv_row []))
   \<and> \<not> contains ''No results to export'' ''Service''"
  by code_simp

text \<open>
  C9, amended: for every non-empty list of results the CSV form is the serialisation of
  one row per result, in order, each row with exactly the columns Service, Query,
  Query_Type, Success, Response_Time, Status_Code, Error, Data_Keys (the names of the
  data fields joined by comma and space) and Timestamp; for the empty list it is the text
  \<open>No results to export\<close>.
\<close>

theorem csv_report_table:
  "(results \<noteq> [] \<longrightarrow>
      generate_comprehensive_report L now results ''csv''
        = AsStr (rows_to_csv L (map csv_row results))
      \<and> length (map csv_row results) = length results
      \<and> (\<forall>r \<in> set results. map fst (csv_row r) =
            [''Service'', ''Query'', ''Query_Type'', ''Success'', ''Response_Time'',
             ''Status_Code'', ''Error'', ''Data_Keys'', ''Timestamp'']))
   \<and> generate_comprehensive_report L now [] ''csv'' = AsStr ''No results to export''"
  by (simp add: generate_comprehensive_report_def generate_csv_report_rows csv_row_def)

theorem csv_report_table_witness:
  "[example_result, example_failure] \<noteq> []
   \<and> generate_comprehensive_report example_libs ''2024-01-01T00:00:02''
        [example_result, example_failure] ''csv''
      = AsStr (rows_to_csv example_libs [csv_row example_result, csv_row example_failure])
   \<and> map fst (csv_row example_failure) =
        [''Service'', ''Query'', ''Query_Type'', ''Success'', ''Response_Time'',
         ''Status_Code'', ''Error'', ''Data_Keys'', ''Timestamp'']
   \<and> map snd (csv_row example_result) =
        [PStr ''Gab'', PStr ''testuser'', PStr ''username'', PBool True, PFloat (3 / 2),
         PInt 200, PStr [], PStr ''profile_exists, page_title'', PStr ''2024-01-01T00:00:00'']"
proof -
  have ne: "[example_result, example_failure] \<noteq> []"
    by simp
  have cells: "map snd (csv_row example_result) =
        [PStr ''Gab'', PStr ''testuser'', PStr ''username'', PBool True, PFloat (3 / 2),
         PInt 200, PStr [], PStr ''profile_exists, page_title'', PStr ''2024-01-01T00:00:00'']"
    by (simp add: csv_row_def example_result_def)
  from csv_report_table [of "[example_result, example_failure]" example_libs
      "''2024-01-01T00:00:02''"] ne cells
  show ?thesis
    by simp
qed

section \<open>Properties of the fetcher\<close>

lemma upt_3: "[0..<3] = [0, 1, 2]"
  by (simp add: upt_rec)

lemma make_request_unfold:
  "make_request E url method w =
     (let n = length (requests w);
          w0 = w\<lparr>requests := requests w @ [HttpRequest method url]\<rparr>
      in case http E n method url of
           Inr resp \<Rightarrow> (Inr resp, w0)
         | Inl e0 \<Rightarrow>
            (let w1 = w0\<lparr>sleeps := Suc (sleeps w), header_updates := Suc (header_updates w),
                         requests := requests w0 @ [HttpRequest method url]\<rparr>
             in case http E (Suc n) method url of
                  Inr resp \<Rightarrow> (Inr resp, w1)
                | Inl e1 \<Rightarrow>
                   (http E (Suc (Suc n)) method url,
                    w1\<lparr>sleeps := Suc (Suc (sleeps w)),
                       header_updates := Suc (Suc (header_updates w)),
                       requests := requests w1 @ [HttpRequest method url]\<rparr>)))"
  by (simp add: make_request_def max_retries_def upt_3 io_try_def io_bind_def io_raise_def
      io_return_def request_attempt_def session_request_def update_headers_def time_sleep_def
      Let_def split: sum.splits)

text \<open>
  C7. A fetch makes at most three attempts. With \<open>n\<close> requests sent before the call, the
  attempts are the requests number \<open>n\<close>, \<open>n + 1\<close> and \<open>n + 2\<close>. The call returns the
  response of the first attempt that returns one and sends nothing after it; when the
  first two attempts raise, the outcome of the call is the outcome of the third attempt,
  so when all three raise the caller gets the exception of the last one. The requests sent
  are one, two or three copies of the same request, never more.
\<close>

theorem make_request_at_most_three_attempts:
  "fst (make_request E url method w) =
     (case http E (length (requests w)) method url of
        Inr resp \<Rightarrow> Inr resp
      | Inl e0 \<Rightarrow>
         (case http E (length (requests w) + 1) method url of
            Inr resp \<Rightarrow> Inr resp
          | Inl e1 \<Rightarrow> http E (length (requests w) + 2) method url))
   \<and> requests (snd (make_request E url method w)) =
       requests w @ replicate
         (case http E (length (requests w)) method url of
            Inr resp \<Rightarrow> 1
          | Inl e0 \<Rightarrow>
             (case http E (length (requests w) + 1) method url of Inr resp \<Rightarrow> 2 | Inl e1 \<Rightarrow> 3))
         (HttpRequest method url)
   \<and> length (requests (snd (make_request E url method w))) \<le> length (requests w) + 3"
  by (simp add: make_request_unfold Let_def eval_nat_numeral split: sum.splits)

theorem make_request_at_most_three_attempts_witness:
  "fst (make_request offline_env ''https://gab.com/testuser'' ''GET'' world0)
     = Inl (Exception ''connection refused'')
   \<and> requests (snd (make_request offline_env ''https://gab.com/testuser'' ''GET'' world0))
     = replicate 3 (HttpRequest ''GET'' ''https://gab.com/testuser'')
   \<and> fst (make_request example_env ''https://gab.com/testuser'' ''GET''
            (world0\<lparr>requests := [HttpRequest ''GET'' ''https://gab.com/other'']\<rparr>))
     = Inr \<lparr>resp_status_code = 200, resp_text = ''<title>ok</title>'',
            resp_url = ''https://gab.com/testuser''\<rparr>
   \<and> length (requests (snd (make_request example_env ''https://gab.com/testuser'' ''GET''
            (world0\<lparr>requests := [HttpRequest ''GET'' ''https://gab.com/other'']\<rparr>)))) = 3"
  using make_request_at_most_three_attempts
      [of offline_env "''https://gab.com/testuser''" "''GET''" world0]
    make_request_at_most_three_attempts
      [of example_env "''https://gab.com/testuser''" "''GET''"
          "world0\<lparr>requests := [HttpRequest ''GET'' ''https://gab.com/other'']\<rparr>"]
  by (simp add: offline_env_def example_env_def world0_def eval_nat_numeral)

section \<open>Properties of the extractors\<close>

lemma new_OSINTResult_rejects:
  "rejects_with msg (new_OSINTResult E svc q qt False [] (Some msg) rt sc) w"
  by (simp add: rejects_with_def new_OSINTResult_def)

lemma search_gab_unsupported:
  assumes "qt \<noteq> ''username''" and "qt \<noteq> ''hashtag''"
  shows "rejects_with ''Unsupported query type'' (search_gab E q qt) w"
  using assms
  by (simp add: rejects_with_def search_gab_def io_bind_def io_try_def time_time_def
      new_OSINTResult_def)

lemma search_tiktok_unsupported:
  assumes "qt \<noteq> ''username''" and "qt \<noteq> ''hashtag''"
  shows "rejects_with ''Unsupported query type'' (search_tiktok E q qt) w"
  using assms
  by (simp add: rejects_with_def search_tiktok_def io_bind_def io_try_def time_time_def
      new_OSINTResult_def)

lemma UtilityOSINT_search_unsupported:
  assumes "qt \<noteq> ''url_expansion''" and "\<not> startswith qt ''pokemon_go''"
  shows "rejects_with ''Unsupported query type'' (UtilityOSINT_search E q qt) w"
  using assms by (simp add: UtilityOSINT_search_def new_OSINTResult_rejects)

lemma SULTAN_search_unsupported:
  assumes "qt \<noteq> ''bulk_username_check''"
  shows "rejects_with ''Unsupported query type for SULTAN'' (SULTAN_search E q qt) w"
  using assms by (simp add: SULTAN_search_def new_OSINTResult_rejects)

text \<open>
  Each modelled extractor catches what its requests and its HTML extraction raise and turns
  it into a result: it always returns one. The failed result carries the text of the
  exception as its error.
\<close>

lemma io_try_returns:
  assumes "\<And>e w1. \<exists>r w2. handler e w1 = (Inr r, w2)"
  shows "\<exists>r w'. io_try m handler w = (Inr r, w')"
proof (cases "m w")
  case (Pair res w1)
  then show ?thesis
    using assms by (cases res) (simp_all add: io_try_def)
qed

lemma search_gab_never_raises: "\<exists>r w'. search_gab E q qt w = (Inr r, w')"
  unfolding search_gab_def
  by (simp add: io_bind_def [of "time_time E"] time_time_def split del: if_split)
     (rule io_try_returns, simp add: io_bind_def time_time_def new_OSINTResult_def)

lemma search_tiktok_never_raises: "\<exists>r w'. search_tiktok E q qt w = (Inr r, w')"
  unfolding search_tiktok_def
  by (simp add: io_bind_def [of "time_time E"] time_time_def split del: if_split)
     (rule io_try_returns, simp add: io_bind_def time_time_def new_OSINTResult_def)

lemma io_foldl_returns:
  assumes "\<And>acc x w1. \<exists>r w2. body acc x w1 = (Inr r, w2)"
  shows "\<exists>r w'. io_foldl body acc xs w = (Inr r, w')"
proof (induction xs arbitrary: acc w)
  case Nil
  show ?case by (simp add: io_return_def)
next
  case (Cons x xs)
  from assms obtain r w2 where "body acc x w = (Inr r, w2)" by blast
  with Cons.IH [of r w2] show ?case by (simp add: io_bind_def)
qed

lemma expand_with_returns: "\<exists>r w2. expand_with E url results expander w1 = (Inr r, w2)"
proof (cases expander)
  case (Pair service_name template)
  show ?thesis
    unfolding Pair expand_with_def prod.case
    by (rule io_try_returns) (simp add: io_return_def)
qed

lemma check_platform_returns: "\<exists>r w2. check_platform E username acc p w1 = (Inr r, w2)"
proof (cases acc)
  case (Pair results found_count)
  show ?thesis
    unfolding Pair check_platform_def prod.case
    by (rule io_try_returns) (simp add: io_return_def)
qed

lemma expand_url_never_raises: "\<exists>r w'. expand_url E url w = (Inr r, w')"
proof -
  obtain rs w2 where "io_foldl (expand_with E url) [] url_expanders
      (w\<lparr>clock_reads := Suc (clock_reads w)\<rparr>) = (Inr rs, w2)"
    using io_foldl_returns [of "expand_with E url", OF expand_with_returns] by blast
  then show ?thesis
    by (simp add: expand_url_def io_bind_def time_time_def new_OSINTResult_def)
qed

lemma UtilityOSINT_search_never_raises: "\<exists>r w'. UtilityOSINT_search E q qt w = (Inr r, w')"
  by (simp add: UtilityOSINT_search_def expand_url_never_raises pokemon_go_search_def
      io_bind_def time_time_def new_OSINTResult_def Let_def)

lemma SULTAN_search_never_raises: "\<exists>r w'. SULTAN_search E q qt w = (Inr r, w')"
proof -
  obtain acc w2 where "io_foldl (check_platform E q) ([], 0) load_default_platforms
      (w\<lparr>clock_reads := Suc (clock_reads w)\<rparr>) = (Inr acc, w2)"
    using io_foldl_returns [of "check_platform E q", OF check_platform_returns] by blast
  then have "\<exists>r w'. bulk_username_check E q w = (Inr r, w')"
    by (cases acc) (simp add: bulk_username_check_def io_bind_def time_time_def
        new_OSINTResult_def)
  then show ?thesis
    by (simp add: SULTAN_search_def new_OSINTResult_def)
qed

lemma search_gab_offline_example:
  "(case fst (search_gab offline_env ''testuser'' ''username'' world0) of
      Inr r \<Rightarrow> \<not> success r \<and> error r = Some ''connection refused'' \<and> service r = ''Gab''
    | Inl e \<Rightarrow> False)"
  by code_simp

text \<open>
  C8, as the claim states it: every extractor answers a query type it does not accept with
  the error \<open>Unsupported query type\<close>, exactly. The SULTAN service accepts only
  \<open>bulk_username_check\<close>; for the query type \<open>foo\<close> its error is a different string.
\<close>

theorem sultan_rejection_message_counterexample:
  "''foo'' \<noteq> ''bulk_username_check''
   \<and> \<not> rejects_with ''Unsupported query type''
         (SULTAN_search example_env ''testuser'' ''foo'') world0
   \<and> \<not> isl (fst (SULTAN_search example_env ''testuser'' ''foo'' world0))
   \<and> error (projr (fst (SULTAN_search example_env ''testuser'' ''foo'' world0)))
       = Some ''Unsupported query type for SULTAN''
   \<and> error (projr (fst (SULTAN_search example_env ''testuser'' ''foo'' world0)))
       \<noteq> Some ''Unsupported query type''"
  by code_simp

text \<open>
  C8, amended: \<open>search_gab\<close> and \<open>search_tiktok\<close> (which accept \<open>username\<close> and
  \<open>hashtag\<close>) and \<open>UtilityOSINT.search\<close> (which accepts \<open>url_expansion\<close> and every type
  that starts with \<open>pokemon_go\<close>) answer any other query type with an unsuccessful result
  whose error is exactly \<open>Unsupported query type\<close>, with no data and without sending a
  request; \<open>SULTANFramework.search\<close> answers every query type other than
  \<open>bulk_username_check\<close> in the same way, with the error
  \<open>Unsupported query type for SULTAN\<close>.
\<close>

theorem unsupported_query_type_rejected:
  "(qt \<noteq> ''username'' \<and> qt \<noteq> ''hashtag'' \<longrightarrow>
      rejects_with ''Unsupported query type'' (search_gab E q qt) w
      \<and> rejects_with ''Unsupported query type'' (search_tiktok E q qt) w)
   \<and> (qt \<noteq> ''url_expansion'' \<and> \<not> startswith qt ''pokemon_go'' \<longrightarrow>
        rejects_with ''Unsupported query type'' (UtilityOSINT_search E q qt) w)
   \<and> (qt \<noteq> ''bulk_username_check'' \<longrightarrow>
        rejects_with ''Unsupported query type for SULTAN'' (SULTAN_search E q qt) w)"
  by (simp add: search_gab_unsupported search_tiktok_unsupported
      UtilityOSINT_search_unsupported SULTAN_search_unsupported)

theorem unsupported_query_type_rejected_witness:
  "''foo'' \<noteq> ''username'' \<and> ''foo'' \<noteq> ''hashtag'' \<and> ''foo'' \<noteq> ''url_expansion''
   \<and> \<not> startswith ''foo'' ''pokemon_go'' \<and> ''foo'' \<noteq> ''bulk_username_check''
   \<and> rejects_with ''Unsupported query type'' (search_gab example_env ''testuser'' ''foo'') world0
   \<and> rejects_with ''Unsupported query type'' (search_tiktok example_env ''testuser'' ''foo'') world0
   \<and> rejects_with ''Unsupported query type''
        (UtilityOSINT_search example_env ''testuser'' ''foo'') world0
   \<and> rejects_with ''Unsupported query type for SULTAN''
        (SULTAN_search example_env ''testuser'' ''foo'') world0
   \<and> requests (snd (search_gab example_env ''testuser'' ''username'' world0)) \<noteq> []"
proof -
  have h: "''foo'' \<noteq> ''username''" "''foo'' \<noteq> ''hashtag''" "''foo'' \<noteq> ''url_expansion''"
    "\<not> startswith ''foo'' ''pokemon_go''" "''foo'' \<noteq> ''bulk_username_check''"
    by (simp_all add: startswith_def)
  have r: "requests (snd (search_gab example_env ''testuser'' ''username'' world0)) \<noteq> []"
    by code_simp
  from unsupported_query_type_rejected [of "''foo''" example_env "''testuser''" world0] h r
  show ?thesis
    by blast
qed

section \<open>Properties of the dispatcher\<close>

text \<open>
  C5. For every query, a run with the empty list of search types returns the empty list
  of results and raises nothing; it also leaves the world as it was.
\<close>

theorem empty_search_types_empty_results:
  "search_comprehensive S q (Some []) w = (Inr [], w)"
  by (simp add: search_comprehensive_def io_return_def)










end
